theory Spec2Isabelle
  imports Main
begin

section \<open>Emotion state (class Emotions of personality/brain.py)\<close>

text \<open>
  The class holds five Python integers. Python integers are unbounded, so every field is
  an \<open>int\<close>; nothing in the class restricts them to a byte.
\<close>

record Emotions =
  wellness :: int
  fullness :: int
  displeasedness :: int
  tiredness :: int
  excitedness :: int

text \<open>\<^verbatim>\<open>__init__\<close>: all five values start at 0.\<close>

definition init :: Emotions where
  "init = \<lparr>wellness = 0, fullness = 0, displeasedness = 0, tiredness = 0, excitedness = 0\<rparr>"

text \<open>\<^verbatim>\<open>get\<close> returns the five fields as a tuple and leaves the object alone.\<close>

definition get :: "Emotions \<Rightarrow> int \<times> int \<times> int \<times> int \<times> int" where
  "get self =
     (wellness self, fullness self, displeasedness self, tiredness self, excitedness self)"

text \<open>
  \<^verbatim>\<open>set\<close> assigns \<^verbatim>\<open>vals[0]\<close> .. \<^verbatim>\<open>vals[4]\<close> to the fields in order; the argument
  is typed as a 5-tuple of integers. The new object is returned.
\<close>

fun set_emotions :: "Emotions \<Rightarrow> int \<times> int \<times> int \<times> int \<times> int \<Rightarrow> Emotions" where
  "set_emotions self (v0, v1, v2, v3, v4) =
     self\<lparr>wellness := v0, fullness := v1, displeasedness := v2,
          tiredness := v3, excitedness := v4\<rparr>"

text \<open>
  \<^verbatim>\<open>decay\<close> walks over the five attribute names and, for each, reads the attribute
  with \<^verbatim>\<open>getattr\<close>, computes \<^verbatim>\<open>max(0, value - decay_rate)\<close> and stores
  \<^verbatim>\<open>min(100, value)\<close> with \<^verbatim>\<open>setattr\<close>.
\<close>

datatype attr = Wellness | Fullness | Displeasedness | Tiredness | Excitedness

fun getattr :: "Emotions \<Rightarrow> attr \<Rightarrow> int" where
  "getattr self Wellness = wellness self"
| "getattr self Fullness = fullness self"
| "getattr self Displeasedness = displeasedness self"
| "getattr self Tiredness = tiredness self"
| "getattr self Excitedness = excitedness self"

fun setattr :: "Emotions \<Rightarrow> attr \<Rightarrow> int \<Rightarrow> Emotions" where
  "setattr self Wellness v = self\<lparr>wellness := v\<rparr>"
| "setattr self Fullness v = self\<lparr>fullness := v\<rparr>"
| "setattr self Displeasedness v = self\<lparr>displeasedness := v\<rparr>"
| "setattr self Tiredness v = self\<lparr>tiredness := v\<rparr>"
| "setattr self Excitedness v = self\<lparr>excitedness := v\<rparr>"

definition decay_rate :: int where
  "decay_rate = 1"

definition decay_attr :: "attr \<Rightarrow> Emotions \<Rightarrow> Emotions" where
  "decay_attr a self =
     (let value = getattr self a;
          value = max 0 (value - decay_rate)
      in setattr self a (min 100 value))"

definition decay :: "Emotions \<Rightarrow> Emotions" where
  "decay self =
     fold decay_attr [Wellness, Fullness, Displeasedness, Tiredness, Excitedness] self"

text \<open>The range the documentation gives for every emotion value.\<close>

definition in_range :: "Emotions \<Rightarrow> bool" where
  "in_range s \<longleftrightarrow>
     0 \<le> wellness s \<and> wellness s \<le> 100 \<and>
     0 \<le> fullness s \<and> fullness s \<le> 100 \<and>
     0 \<le> displeasedness s \<and> displeasedness s \<le> 100 \<and>
     0 \<le> tiredness s \<and> tiredness s \<le> 100 \<and>
     0 \<le> excitedness s \<and> excitedness s \<le> 100"

section \<open>Interactions and the action table (personality/brain.py)\<close>

text \<open>
  \<^verbatim>\<open>Interaction\<close> is an \<^verbatim>\<open>IntEnum\<close>: a member compares equal to the integer it
  carries, which is what \<^verbatim>\<open>int_req == interaction\<close> relies on.
\<close>

datatype Interaction = NONE | SOUND | BACK_SENSOR | TAIL_PULL | UPSIDE_DOWN | SHAKE

fun interaction_value :: "Interaction \<Rightarrow> int" where
  "interaction_value NONE = 0"
| "interaction_value SOUND = 1"
| "interaction_value BACK_SENSOR = 2"
| "interaction_value TAIL_PULL = 3"
| "interaction_value UPSIDE_DOWN = 4"
| "interaction_value SHAKE = 5"

text \<open>
  \<^verbatim>\<open>ActionTuple\<close> is a 12-tuple: five lower bounds, five upper bounds, the required
  interaction as an integer (0 for none required) and a payload of any type.
\<close>

record 'p ActionTuple =
  min_wellness :: int
  min_fullness :: int
  min_displeasedness :: int
  min_tiredness :: int
  min_excitedness :: int
  max_wellness :: int
  max_fullness :: int
  max_displeasedness :: int
  max_tiredness :: int
  max_excitedness :: int
  int_req :: int
  payload :: 'p

text \<open>The slices \<^verbatim>\<open>entry[0:5]\<close> and \<^verbatim>\<open>entry[5:10]\<close>.\<close>

definition mins :: "'p ActionTuple \<Rightarrow> int list" where
  "mins entry =
     [min_wellness entry, min_fullness entry, min_displeasedness entry,
      min_tiredness entry, min_excitedness entry]"

definition maxs :: "'p ActionTuple \<Rightarrow> int list" where
  "maxs entry =
     [max_wellness entry, max_fullness entry, max_displeasedness entry,
      max_tiredness entry, max_excitedness entry]"

text \<open>The class attribute \<^verbatim>\<open>ACTION_TABLE\<close>: one entry.\<close>

definition ACTION_TABLE :: "string ActionTuple list" where
  "ACTION_TABLE =
     [\<lparr>min_wellness = 0, min_fullness = 0, min_displeasedness = 0, min_tiredness = 0,
       min_excitedness = 0, max_wellness = 100, max_fullness = 100,
       max_displeasedness = 100, max_tiredness = 100, max_excitedness = 100,
       int_req = 0, payload = ''idle action''\<rparr>]"

section \<open>The stress value and the delay (Brain._random_delay)\<close>

text \<open>
  Python's \<^verbatim>\<open><<\<close> and \<^verbatim>\<open>>>\<close> on integers are \<open>push_bit\<close> and \<open>drop_bit\<close> on
  \<open>int\<close>; the right shift of a negative number rounds towards minus infinity in both.
  \<open>stress_of\<close> is the value the method prints, lines 128 to 143.
\<close>

definition stress_of :: "Emotions \<Rightarrow> int" where
  "stress_of self =
     (case get self of (w, f, d, t, e) \<Rightarrow>
        let unwell = 100 - w;
            hungry = 100 - f;
            stress = push_bit 1 unwell + push_bit 1 hungry + d + e - push_bit 1 t
        in max 0 (min 255 (drop_bit 2 stress)))"

text \<open>
  The argument of \<^verbatim>\<open>sleep\<close>, line 147; \<open>r\<close> is the value \<^verbatim>\<open>randint(1, 100)\<close>
  returned.
\<close>

definition sleep_duration :: "int \<Rightarrow> int \<Rightarrow> int" where
  "sleep_duration stress r = drop_bit 1 (stress + r)"

definition random_delay :: "Emotions \<Rightarrow> int \<Rightarrow> int" where
  "random_delay self r = sleep_duration (stress_of self) r"

section \<open>Action selection (Brain._action)\<close>

text \<open>
  \<^verbatim>\<open>zip(mins, emotions, maxs)\<close> pairs the three sequences position by position; the
  emotions are the tuple \<^verbatim>\<open>get\<close> returned.
\<close>

fun tuple_list :: "int \<times> int \<times> int \<times> int \<times> int \<Rightarrow> int list" where
  "tuple_list (w, f, d, t, e) = [w, f, d, t, e]"

definition zip3 :: "'a list \<Rightarrow> 'b list \<Rightarrow> 'c list \<Rightarrow> ('a \<times> 'b \<times> 'c) list" where
  "zip3 xs ys zs = zip xs (zip ys zs)"

text \<open>One round of the loop over the table: the entry's payload is appended when both
  tests pass.\<close>

definition action_entry ::
  "int \<times> int \<times> int \<times> int \<times> int \<Rightarrow> Interaction \<Rightarrow> 'p ActionTuple \<Rightarrow> 'p list \<Rightarrow> 'p list"
where
  "action_entry emotions interaction entry runnable =
     (let req = int_req entry;
          selected = payload entry
      in if list_all (\<lambda>(min_v, emo, max_v). min_v \<le> emo \<and> emo \<le> max_v)
              (zip3 (mins entry) (tuple_list emotions) (maxs entry))
         then (if req = 0 \<or> req = interaction_value interaction
               then runnable @ [selected] else runnable)
         else runnable)"

definition runnable_of ::
  "int \<times> int \<times> int \<times> int \<times> int \<Rightarrow> Interaction \<Rightarrow> 'p ActionTuple list \<Rightarrow> 'p list"
where
  "runnable_of emotions interaction table = fold (action_entry emotions interaction) table []"

text \<open>
  \<^verbatim>\<open>random.choice(seq)\<close> raises \<^verbatim>\<open>IndexError\<close> on an empty sequence and otherwise
  returns \<^verbatim>\<open>seq[i]\<close> for a drawn index \<open>i\<close> below the length. The draw is the
  parameter \<open>r\<close>, reduced modulo the length: every index below the length can be drawn,
  and no other.
\<close>

datatype error = IndexError

definition choice :: "nat \<Rightarrow> 'a list \<Rightarrow> error + 'a" where
  "choice r seq = (if seq = [] then Inl IndexError else Inr (seq ! (r mod length seq)))"

text \<open>
  What \<^verbatim>\<open>_action\<close> does with its result: it hands a payload to the action runner
  (\<^verbatim>\<open>_execute_action\<close>, which prints it) or prints that nothing is runnable.
\<close>

datatype 'p outcome = Executed 'p | NoRunnableActions

definition execute_action :: "'p \<Rightarrow> 'p outcome" where
  "execute_action pl = Executed pl"

definition action ::
  "Emotions \<Rightarrow> 'p ActionTuple list \<Rightarrow> Interaction \<Rightarrow> nat \<Rightarrow> error + 'p outcome"
where
  "action self table interaction r =
     (let emotions = get self;
          runnable = runnable_of emotions interaction table
      in if runnable \<noteq> []
         then (case choice r runnable of
                 Inl err \<Rightarrow> Inl err
               | Inr selected \<Rightarrow> Inr (execute_action selected))
         else Inr NoRunnableActions)"

section \<open>The emotion state of personality/__init__.py\<close>

text \<open>
  The class has the same five fields, \<^verbatim>\<open>get\<close> and \<^verbatim>\<open>set\<close> as the one above, so
  the record \<open>Emotions\<close> serves for both. Its \<^verbatim>\<open>decay\<close> differs: the loop runs over
  a list of the five field values and assigns to the loop variable \<^verbatim>\<open>emotion\<close> only.
  The frame holds the object and that local variable, unbound before the loop.
\<close>

record decay_frame =
  self_object :: Emotions
  emotion :: "int option"

definition init_decay_body :: "int \<Rightarrow> decay_frame \<Rightarrow> decay_frame" where
  "init_decay_body item frame =
     (let emo = item;
          emo = (if emo \<ge> decay_rate then emo - decay_rate else 0);
          emo = (if emo > 100 then 100 else emo)
      in frame\<lparr>emotion := Some emo\<rparr>)"

definition init_decay_frame :: "Emotions \<Rightarrow> decay_frame" where
  "init_decay_frame self =
     fold init_decay_body
       [wellness self, fullness self, displeasedness self, tiredness self, excitedness self]
       \<lparr>self_object = self, emotion = None\<rparr>"

definition init_decay :: "Emotions \<Rightarrow> Emotions" where
  "init_decay self = self_object (init_decay_frame self)"

section \<open>The claims' conditions, written out on the fields\<close>

text \<open>
  The specification's matching condition for a rule: every emotion dimension lies within
  the rule's bounds, and the rule requires no interaction (0) or the supplied one.
\<close>

definition spec_matches :: "Emotions \<Rightarrow> Interaction \<Rightarrow> 'p ActionTuple \<Rightarrow> bool" where
  "spec_matches s interaction entry \<longleftrightarrow>
     min_wellness entry \<le> wellness s \<and> wellness s \<le> max_wellness entry \<and>
     min_fullness entry \<le> fullness s \<and> fullness s \<le> max_fullness entry \<and>
     min_displeasedness entry \<le> displeasedness s \<and>
     displeasedness s \<le> max_displeasedness entry \<and>
     min_tiredness entry \<le> tiredness s \<and> tiredness s \<le> max_tiredness entry \<and>
     min_excitedness entry \<le> excitedness s \<and> excitedness s \<le> max_excitedness entry \<and>
     (int_req entry = 0 \<or> int_req entry = interaction_value interaction)"

text \<open>The specification's clamp of a value into an interval.\<close>

definition spec_clamp :: "int \<Rightarrow> int \<Rightarrow> int \<Rightarrow> int" where
  "spec_clamp x lo hi = (if x < lo then lo else if hi < x then hi else x)"

text \<open>A tuple of five values within the documented range.\<close>

fun vals_in_range :: "int \<times> int \<times> int \<times> int \<times> int \<Rightarrow> bool" where
  "vals_in_range (v0, v1, v2, v3, v4) \<longleftrightarrow>
     0 \<le> v0 \<and> v0 \<le> 100 \<and> 0 \<le> v1 \<and> v1 \<le> 100 \<and> 0 \<le> v2 \<and> v2 \<le> 100 \<and>
     0 \<le> v3 \<and> v3 \<le> 100 \<and> 0 \<le> v4 \<and> v4 \<le> 100"

section \<open>Properties of the emotion state\<close>

lemma decay_fields:
  "decay s =
     s\<lparr>wellness := min 100 (max 0 (wellness s - 1)),
       fullness := min 100 (max 0 (fullness s - 1)),
       displeasedness := min 100 (max 0 (displeasedness s - 1)),
       tiredness := min 100 (max 0 (tiredness s - 1)),
       excitedness := min 100 (max 0 (excitedness s - 1))\<rparr>"
  by (simp add: decay_def decay_attr_def decay_rate_def)

lemma decay_in_range_any: "in_range (decay s)"
  by (simp add: decay_fields in_range_def)

lemma decay_pow_in_range: "in_range s \<Longrightarrow> in_range ((decay ^^ n) s)"
  by (induction n) (simp_all add: decay_in_range_any)

lemma decay_step_in_range:
  assumes "in_range s"
  shows "wellness (decay s) = max 0 (wellness s - 1)"
    and "fullness (decay s) = max 0 (fullness s - 1)"
    and "displeasedness (decay s) = max 0 (displeasedness s - 1)"
    and "tiredness (decay s) = max 0 (tiredness s - 1)"
    and "excitedness (decay s) = max 0 (excitedness s - 1)"
  using assms by (simp_all add: decay_fields in_range_def)

lemma max_pred_step: "max 0 (max 0 (x - int n) - 1) = max 0 (x - int (Suc n))"
  by simp

lemma decay_pow_fields:
  assumes "in_range s"
  shows "wellness ((decay ^^ n) s) = max 0 (wellness s - int n) \<and>
         fullness ((decay ^^ n) s) = max 0 (fullness s - int n) \<and>
         displeasedness ((decay ^^ n) s) = max 0 (displeasedness s - int n) \<and>
         tiredness ((decay ^^ n) s) = max 0 (tiredness s - int n) \<and>
         excitedness ((decay ^^ n) s) = max 0 (excitedness s - int n)"
proof (induction n)
  case 0
  from assms show ?case
    by (simp add: in_range_def)
next
  case (Suc n)
  define t where "t = (decay ^^ n) s"
  have r: "in_range t"
    unfolding t_def using assms by (rule decay_pow_in_range)
  have step: "(decay ^^ Suc n) s = decay t"
    by (simp add: t_def)
  from Suc have ih:
    "wellness t = max 0 (wellness s - int n)"
    "fullness t = max 0 (fullness s - int n)"
    "displeasedness t = max 0 (displeasedness s - int n)"
    "tiredness t = max 0 (tiredness s - int n)"
    "excitedness t = max 0 (excitedness s - int n)"
    by (simp_all add: t_def)
  show ?case
    unfolding step decay_step_in_range [OF r] ih max_pred_step
    by simp
qed

section \<open>Properties of the stress value and the delay\<close>

lemma stress_of_eq:
  "stress_of s =
     max 0 (min 255 ((2 * (100 - wellness s) + 2 * (100 - fullness s)
       + displeasedness s + excitedness s - 2 * tiredness s) div 4))"
  by (simp add: stress_of_def get_def drop_bit_eq_div push_bit_eq_mult Let_def)

lemma sleep_duration_eq: "sleep_duration st r = (st + r) div 2"
  by (simp add: sleep_duration_def drop_bit_eq_div)

lemma stress_of_mono:
  assumes "wellness s' \<le> wellness s" and "fullness s' \<le> fullness s"
    and "displeasedness s \<le> displeasedness s'" and "excitedness s \<le> excitedness s'"
    and "tiredness s' \<le> tiredness s"
  shows "stress_of s \<le> stress_of s'"
proof -
  have "(2 * (100 - wellness s) + 2 * (100 - fullness s)
          + displeasedness s + excitedness s - 2 * tiredness s) div 4
        \<le> (2 * (100 - wellness s') + 2 * (100 - fullness s')
          + displeasedness s' + excitedness s' - 2 * tiredness s') div 4"
    using assms by (intro zdiv_mono1) simp_all
  then show ?thesis
    unfolding stress_of_eq by linarith
qed

section \<open>Properties of the action selection\<close>

lemma entry_test:
  "list_all (\<lambda>(min_v, emo, max_v). min_v \<le> emo \<and> emo \<le> max_v)
      (zip3 (mins entry) (tuple_list (get s)) (maxs entry)) \<and>
   (int_req entry = 0 \<or> int_req entry = interaction_value i)
   \<longleftrightarrow> spec_matches s i entry"
  by (auto simp add: zip3_def mins_def maxs_def get_def spec_matches_def)

lemma action_entry_cases:
  "action_entry (get s) i entry acc =
     (if spec_matches s i entry then acc @ [payload entry] else acc)"
  using entry_test [of entry s i] by (auto simp add: action_entry_def Let_def)

lemma fold_action_entry:
  "fold (action_entry (get s) i) table acc =
     acc @ map payload (filter (spec_matches s i) table)"
  by (induction table arbitrary: acc) (simp_all add: action_entry_cases)

lemma runnable_of_eq:
  "runnable_of (get s) i table = map payload (filter (spec_matches s i) table)"
  by (simp add: runnable_of_def fold_action_entry)

lemma set_runnable_of:
  "set (runnable_of (get s) i table) =
     payload ` {entry \<in> set table. spec_matches s i entry}"
  by (simp add: runnable_of_eq)

lemma choice_mem: "choice r xs = Inr x \<Longrightarrow> x \<in> set xs"
  by (auto simp add: choice_def split: if_splits)

lemma choice_nonempty: "xs \<noteq> [] \<Longrightarrow> \<exists>x. choice r xs = Inr x"
  by (simp add: choice_def)

text \<open>The model of the draw leaves no element out: each one is chosen by some draw.\<close>

lemma choice_reaches:
  assumes "x \<in> set xs"
  shows "\<exists>r. choice r xs = Inr x"
proof -
  from assms obtain k where "k < length xs" and "xs ! k = x"
    by (auto simp add: in_set_conv_nth)
  then have "choice k xs = Inr x"
    by (auto simp add: choice_def)
  then show ?thesis ..
qed

lemma action_Executed:
  "action s table i r = Inr (Executed p) \<Longrightarrow> p \<in> set (runnable_of (get s) i table)"
  by (auto simp add: action_def Let_def execute_action_def split: if_splits sum.splits
        dest: choice_mem)

section \<open>Properties of the decay of personality/__init__.py\<close>

lemma init_decay_body_self: "self_object (init_decay_body v fr) = self_object fr"
  by (simp add: init_decay_body_def Let_def)

lemma fold_init_decay_body_self:
  "self_object (fold init_decay_body vs fr) = self_object fr"
  by (induction vs arbitrary: fr) (simp_all add: init_decay_body_self)

text \<open>The loop does run: after it, the local variable holds the decayed last value.\<close>

lemma init_decay_frame_local:
  "emotion (init_decay_frame s) =
     Some (if excitedness s \<ge> 1 then min 100 (excitedness s - 1) else 0)"
  by (simp add: init_decay_frame_def init_decay_body_def decay_rate_def Let_def)

section \<open>The claims\<close>

text \<open>
  C1: for every emotion state whose five dimensions lie in [0,100], one call of
  \<^verbatim>\<open>Emotions.decay\<close> (brain.py) sets each dimension to \<open>max(0, old - 1)\<close>; after
  \<open>n\<close> calls each dimension equals \<open>max(0, initial - n)\<close>, and the state is still
  within [0,100], so no dimension is negative or above 100.
\<close>

theorem decay_bound:
  assumes "in_range s"
  shows "wellness (decay s) = max 0 (wellness s - 1) \<and>
         fullness (decay s) = max 0 (fullness s - 1) \<and>
         displeasedness (decay s) = max 0 (displeasedness s - 1) \<and>
         tiredness (decay s) = max 0 (tiredness s - 1) \<and>
         excitedness (decay s) = max 0 (excitedness s - 1) \<and>
         wellness ((decay ^^ n) s) = max 0 (wellness s - int n) \<and>
         fullness ((decay ^^ n) s) = max 0 (fullness s - int n) \<and>
         displeasedness ((decay ^^ n) s) = max 0 (displeasedness s - int n) \<and>
         tiredness ((decay ^^ n) s) = max 0 (tiredness s - int n) \<and>
         excitedness ((decay ^^ n) s) = max 0 (excitedness s - int n) \<and>
         in_range ((decay ^^ n) s)"
  using decay_step_in_range [OF assms] decay_pow_fields [OF assms, of n]
    decay_pow_in_range [OF assms, of n]
  by blast

theorem decay_bound_witness:
  "in_range (set_emotions init (3, 100, 0, 50, 1)) \<and>
   wellness (decay (set_emotions init (3, 100, 0, 50, 1))) = 2 \<and>
   displeasedness (decay (set_emotions init (3, 100, 0, 50, 1))) = 0 \<and>
   wellness ((decay ^^ 5) (set_emotions init (3, 100, 0, 50, 1))) = 0 \<and>
   fullness ((decay ^^ 5) (set_emotions init (3, 100, 0, 50, 1))) = 95 \<and>
   tiredness ((decay ^^ 5) (set_emotions init (3, 100, 0, 50, 1))) = 45 \<and>
   in_range ((decay ^^ 5) (set_emotions init (3, 100, 0, 50, 1)))"
proof -
  have h: "in_range (set_emotions init (3, 100, 0, 50, 1))"
    by (simp add: in_range_def init_def)
  from h decay_bound [OF h, of 5] show ?thesis
    by (simp add: init_def)
qed

text \<open>
  C2: for every emotion snapshot \<open>(w, f, d, t, e)\<close> the stress value computed by
  \<^verbatim>\<open>Brain._random_delay\<close> is the floor of
  \<open>(2*(100-w) + 2*(100-f) + d + e - 2*t) / 4\<close>, clamped into [0,255]; in particular it
  lies in [0,255].
\<close>

theorem stress_formula:
  "stress_of \<lparr>wellness = w, fullness = f, displeasedness = d, tiredness = t,
              excitedness = e\<rparr>
     = spec_clamp ((2 * (100 - w) + 2 * (100 - f) + d + e - 2 * t) div 4) 0 255 \<and>
   0 \<le> stress_of \<lparr>wellness = w, fullness = f, displeasedness = d, tiredness = t,
                  excitedness = e\<rparr> \<and>
   stress_of \<lparr>wellness = w, fullness = f, displeasedness = d, tiredness = t,
              excitedness = e\<rparr> \<le> 255"
  by (simp add: stress_of_eq spec_clamp_def)

text \<open>
  C3: if \<^verbatim>\<open>Brain._action\<close> selects a payload, the payload belongs to an entry of the
  table whose bounds hold the current emotions in all five dimensions and whose required
  interaction is 0 or the supplied interaction. This holds for every table, every state,
  every interaction and every random draw.
\<close>

theorem action_sound:
  assumes "action s table i r = Inr (Executed p)"
  shows "\<exists>entry \<in> set table. payload entry = p \<and> spec_matches s i entry"
proof -
  from assms have "p \<in> set (runnable_of (get s) i table)"
    by (rule action_Executed)
  then show ?thesis
    by (auto simp add: set_runnable_of)
qed

theorem action_sound_witness:
  "action init ACTION_TABLE NONE 0 = Inr (Executed ''idle action'') \<and>
   (\<exists>entry \<in> set ACTION_TABLE.
      payload entry = ''idle action'' \<and> spec_matches init NONE entry)"
proof -
  have h: "action init ACTION_TABLE NONE 0 = Inr (Executed ''idle action'')"
    by (simp add: action_def runnable_of_def action_entry_def zip3_def mins_def maxs_def
          get_def init_def ACTION_TABLE_def choice_def execute_action_def)
  from h action_sound [OF h] show ?thesis
    by simp
qed

text \<open>
  C4: if at least one entry of the table matches, \<^verbatim>\<open>Brain._action\<close> executes some
  payload; if none matches, it ends with the "no runnable actions" outcome. In neither
  case does it raise.
\<close>

theorem action_complete:
  "((\<exists>entry \<in> set table. spec_matches s i entry) \<longrightarrow>
      (\<exists>p. action s table i r = Inr (Executed p))) \<and>
   (\<not> (\<exists>entry \<in> set table. spec_matches s i entry) \<longrightarrow>
      action s table i r = Inr NoRunnableActions)"
proof (cases "\<exists>entry \<in> set table. spec_matches s i entry")
  case True
  then have ne: "runnable_of (get s) i table \<noteq> []"
    by (auto simp add: runnable_of_eq filter_empty_conv)
  then obtain x where "choice r (runnable_of (get s) i table) = Inr x"
    using choice_nonempty by blast
  with ne have "action s table i r = Inr (Executed x)"
    by (simp add: action_def execute_action_def)
  with True show ?thesis
    by blast
next
  case False
  then have "runnable_of (get s) i table = []"
    by (auto simp add: runnable_of_eq filter_empty_conv)
  then have "action s table i r = Inr NoRunnableActions"
    by (simp add: action_def)
  with False show ?thesis
    by blast
qed

theorem action_complete_witness:
  "(\<exists>entry \<in> set ACTION_TABLE. spec_matches init SOUND entry) \<and>
   (\<exists>p. action init ACTION_TABLE SOUND 3 = Inr (Executed p)) \<and>
   \<not> (\<exists>entry \<in> set (map (\<lambda>entry. entry\<lparr>int_req := 5\<rparr>) ACTION_TABLE).
        spec_matches init NONE entry) \<and>
   action init (map (\<lambda>entry. entry\<lparr>int_req := 5\<rparr>) ACTION_TABLE) NONE 3
     = Inr NoRunnableActions"
proof -
  have yes: "\<exists>entry \<in> set ACTION_TABLE. spec_matches init SOUND entry"
    by (simp add: ACTION_TABLE_def spec_matches_def init_def)
  have no: "\<not> (\<exists>entry \<in> set (map (\<lambda>entry. entry\<lparr>int_req := 5\<rparr>) ACTION_TABLE).
                 spec_matches init NONE entry)"
    by (simp add: ACTION_TABLE_def spec_matches_def init_def)
  from yes no
    action_complete [of ACTION_TABLE init SOUND 3]
    action_complete [of "map (\<lambda>entry. entry\<lparr>int_req := 5\<rparr>) ACTION_TABLE" init NONE 3]
  show ?thesis
    by blast
qed

text \<open>
  C5, as amended: for every starting state, \<^verbatim>\<open>Emotions.decay\<close> (brain.py) produces a
  state with all five fields in [0,100]; \<^verbatim>\<open>Emotions.set\<close> produces such a state
  whenever the five values of its argument lie in [0,100].
\<close>

theorem decay_set_range:
  "in_range (decay s) \<and> (vals_in_range v \<longrightarrow> in_range (set_emotions s v))"
proof
  show "in_range (decay s)"
    by (rule decay_in_range_any)
  show "vals_in_range v \<longrightarrow> in_range (set_emotions s v)"
    by (cases v) (simp add: in_range_def)
qed

theorem decay_set_range_witness:
  "vals_in_range (0, 100, 37, 1, 99) \<and>
   in_range (set_emotions init (0, 100, 37, 1, 99)) \<and>
   in_range (decay (set_emotions init (250, - 7, 37, 1, 99)))"
  using decay_set_range [of "set_emotions init (250, - 7, 37, 1, 99)" "(0, 100, 37, 1, 99)"]
    decay_set_range [of init "(0, 100, 37, 1, 99)"]
  by simp

text \<open>
  C5 as stated fails: \<^verbatim>\<open>set\<close> stores a value above 100 as it is, so the state it
  produces is not within [0,100].
\<close>

theorem set_out_of_range_counterexample:
  "\<not> in_range (set_emotions init (200, 0, 0, 0, 0))"
  by (simp add: in_range_def init_def)

text \<open>
  C6: for snapshots within [0,100] that differ in one dimension only, a higher
  excitedness or displeasedness never gives a lower stress, and a higher tiredness,
  wellness or fullness never gives a higher stress.
\<close>

theorem stress_monotone:
  assumes "in_range s" and "in_range s'"
  shows "(s' = s\<lparr>excitedness := excitedness s'\<rparr> \<and> excitedness s \<le> excitedness s'
            \<longrightarrow> stress_of s \<le> stress_of s') \<and>
         (s' = s\<lparr>displeasedness := displeasedness s'\<rparr> \<and>
          displeasedness s \<le> displeasedness s'
            \<longrightarrow> stress_of s \<le> stress_of s') \<and>
         (s' = s\<lparr>tiredness := tiredness s'\<rparr> \<and> tiredness s \<le> tiredness s'
            \<longrightarrow> stress_of s' \<le> stress_of s) \<and>
         (s' = s\<lparr>wellness := wellness s'\<rparr> \<and> wellness s \<le> wellness s'
            \<longrightarrow> stress_of s' \<le> stress_of s) \<and>
         (s' = s\<lparr>fullness := fullness s'\<rparr> \<and> fullness s \<le> fullness s'
            \<longrightarrow> stress_of s' \<le> stress_of s)"
proof (intro conjI impI; elim conjE)
  assume "s' = s\<lparr>excitedness := excitedness s'\<rparr>" and "excitedness s \<le> excitedness s'"
  then show "stress_of s \<le> stress_of s'"
    by (intro stress_of_mono) (cases s, cases s', simp)+
next
  assume "s' = s\<lparr>displeasedness := displeasedness s'\<rparr>"
    and "displeasedness s \<le> displeasedness s'"
  then show "stress_of s \<le> stress_of s'"
    by (intro stress_of_mono) (cases s, cases s', simp)+
next
  assume "s' = s\<lparr>tiredness := tiredness s'\<rparr>" and "tiredness s \<le> tiredness s'"
  then show "stress_of s' \<le> stress_of s"
    by (intro stress_of_mono) (cases s, cases s', simp)+
next
  assume "s' = s\<lparr>wellness := wellness s'\<rparr>" and "wellness s \<le> wellness s'"
  then show "stress_of s' \<le> stress_of s"
    by (intro stress_of_mono) (cases s, cases s', simp)+
next
  assume "s' = s\<lparr>fullness := fullness s'\<rparr>" and "fullness s \<le> fullness s'"
  then show "stress_of s' \<le> stress_of s"
    by (intro stress_of_mono) (cases s, cases s', simp)+
qed

theorem stress_monotone_witness:
  "in_range (set_emotions init (50, 50, 50, 50, 50)) \<and>
   in_range (set_emotions init (50, 50, 50, 50, 90)) \<and>
   stress_of (set_emotions init (50, 50, 50, 50, 50))
     \<le> stress_of (set_emotions init (50, 50, 50, 50, 90)) \<and>
   stress_of (set_emotions init (50, 50, 50, 50, 50))
     \<le> stress_of (set_emotions init (50, 50, 90, 50, 50)) \<and>
   stress_of (set_emotions init (50, 50, 50, 90, 50))
     \<le> stress_of (set_emotions init (50, 50, 50, 50, 50)) \<and>
   stress_of (set_emotions init (90, 50, 50, 50, 50))
     \<le> stress_of (set_emotions init (50, 50, 50, 50, 50)) \<and>
   stress_of (set_emotions init (50, 90, 50, 50, 50))
     \<le> stress_of (set_emotions init (50, 50, 50, 50, 50))"
  using
    stress_monotone [of "set_emotions init (50, 50, 50, 50, 50)"
                        "set_emotions init (50, 50, 50, 50, 90)"]
    stress_monotone [of "set_emotions init (50, 50, 50, 50, 50)"
                        "set_emotions init (50, 50, 90, 50, 50)"]
    stress_monotone [of "set_emotions init (50, 50, 50, 50, 50)"
                        "set_emotions init (50, 50, 50, 90, 50)"]
    stress_monotone [of "set_emotions init (50, 50, 50, 50, 50)"
                        "set_emotions init (90, 50, 50, 50, 50)"]
    stress_monotone [of "set_emotions init (50, 50, 50, 50, 50)"
                        "set_emotions init (50, 90, 50, 50, 50)"]
  by (simp add: in_range_def init_def)

text \<open>
  C7: the delay of the idle path is the floor of \<open>(stress + r) / 2\<close>, where \<open>r\<close> is
  the random draw; for every stress in [0,255] and every draw in [1,100] it lies in
  [0,177]. So does the delay \<^verbatim>\<open>_random_delay\<close> computes from any emotion state.
\<close>

theorem delay_bound:
  "sleep_duration st r = (st + r) div 2 \<and>
   (0 \<le> st \<and> st \<le> 255 \<and> 1 \<le> r \<and> r \<le> 100
      \<longrightarrow> 0 \<le> sleep_duration st r \<and> sleep_duration st r \<le> 177) \<and>
   random_delay self r = (stress_of self + r) div 2 \<and>
   (1 \<le> r \<and> r \<le> 100 \<longrightarrow> 0 \<le> random_delay self r \<and> random_delay self r \<le> 177)"
proof -
  have "0 \<le> stress_of self" and "stress_of self \<le> 255"
    by (simp_all add: stress_of_eq)
  then show ?thesis
    unfolding random_delay_def sleep_duration_eq by auto
qed

theorem delay_bound_witness:
  "(0::int) \<le> 255 \<and> (255::int) \<le> 255 \<and> (1::int) \<le> 100 \<and> (100::int) \<le> 100 \<and>
   0 \<le> sleep_duration 255 100 \<and> sleep_duration 255 100 \<le> 177 \<and>
   0 \<le> random_delay init 100 \<and> random_delay init 100 \<le> 177"
proof -
  have h: "(0::int) \<le> 255 \<and> (255::int) \<le> 255 \<and> (1::int) \<le> 100 \<and> (100::int) \<le> 100"
    by simp
  from h delay_bound [of 255 100 init] show ?thesis
    by blast
qed

text \<open>
  C8: \<^verbatim>\<open>set\<close> followed by \<^verbatim>\<open>get\<close> returns exactly the tuple that was stored, for
  every 5-tuple of integers, in range or not: nothing is clamped.
\<close>

theorem set_get_roundtrip: "get (set_emotions self v) = v"
  by (cases v) (simp add: get_def)

text \<open>
  C9, as amended: with the default \<^verbatim>\<open>ACTION_TABLE\<close>, for every emotion snapshot whose
  five dimensions lie in [0,100], every interaction and every random draw, the selection
  executes the payload "idle action".
\<close>

theorem default_table_idle:
  assumes "in_range s"
  shows "action s ACTION_TABLE i r = Inr (Executed ''idle action'')"
proof -
  from assms have "spec_matches s i (hd ACTION_TABLE)"
    by (simp add: spec_matches_def in_range_def ACTION_TABLE_def)
  then have "runnable_of (get s) i ACTION_TABLE = [''idle action'']"
    by (simp add: runnable_of_eq ACTION_TABLE_def)
  then show ?thesis
    by (simp add: action_def choice_def execute_action_def)
qed

theorem default_table_idle_witness:
  "in_range (set_emotions init (100, 0, 42, 7, 100)) \<and>
   action (set_emotions init (100, 0, 42, 7, 100)) ACTION_TABLE TAIL_PULL 7
     = Inr (Executed ''idle action'')"
proof -
  have h: "in_range (set_emotions init (100, 0, 42, 7, 100))"
    by (simp add: in_range_def init_def)
  from h default_table_idle [OF h, of TAIL_PULL 7] show ?thesis
    by simp
qed

text \<open>
  C9 as stated fails: a snapshot with wellness 200, which \<^verbatim>\<open>set\<close> stores as it is,
  is outside the bounds of the only entry, and the selection finds nothing runnable.
\<close>

theorem default_table_counterexample:
  "action (set_emotions init (200, 0, 0, 0, 0)) ACTION_TABLE SHAKE 0
     = Inr NoRunnableActions \<and>
   action (set_emotions init (200, 0, 0, 0, 0)) ACTION_TABLE SHAKE 0
     \<noteq> Inr (Executed ''idle action'')"
  by (simp add: action_def runnable_of_def action_entry_def zip3_def mins_def maxs_def
        get_def init_def ACTION_TABLE_def)

text \<open>
  C10: \<^verbatim>\<open>Emotions.decay\<close> of personality/__init__.py leaves the five fields of the
  object as they were, for every starting state: only the loop variable is assigned.
\<close>

theorem init_decay_noop: "init_decay s = s"
  unfolding init_decay_def init_decay_frame_def
  by (simp only: fold_init_decay_body_self decay_frame.simps)

end
